theory Spec2Isabelle
  imports Main "HOL-Library.Word"
begin

section \<open>Machine driver for the ChamSys MQ50HD/MQ70HD audio path (RK3288 I2S, ES8328 codec)\<close>

text \<open>
  The embedding follows \<^verbatim>\<open>sound/soc/rockchip/rk3288_chamsys_audio.c\<close>. The driver
  only issues commands to two collaborators: the DAI drivers (through
  \<^verbatim>\<open>snd_soc_dai_set_sysclk\<close>) and the codec's control bus (through
  \<^verbatim>\<open>snd_soc_component_write\<close>). Every such command, and every \<^verbatim>\<open>dev_err\<close> line,
  is recorded in order in a trace, which is the state that the functions pass along.
\<close>

subsection \<open>Constants\<close>

type_synonym u8 = "8 word"
type_synonym u32 = "32 word"

definition CSYS_AUDIO_MCLK :: nat where
  "CSYS_AUDIO_MCLK = 11289600"

definition CSYS_AUDIO_MCLK_FS :: nat where
  "CSYS_AUDIO_MCLK_FS = 256"

definition CSYS_AUDIO_LRCLK :: u32 where
  "CSYS_AUDIO_LRCLK = 44100"

text \<open>\<^verbatim>\<open>EINVAL\<close> of the kernel's errno table.\<close>

definition EINVAL :: int where
  "EINVAL = 22"

text \<open>The direction argument of \<^verbatim>\<open>snd_soc_dai_set_sysclk\<close>.\<close>

datatype clock_dir = SND_SOC_CLOCK_IN | SND_SOC_CLOCK_OUT

subsection \<open>Register tables\<close>

text \<open>The two \<^verbatim>\<open>unsigned char\<close> arrays, byte for byte: address, value, address, value, ...\<close>

definition csys_es8328_regs :: "u8 list" where
  "csys_es8328_regs =
    [0x00, 0x35,
     0x03, 0x09,
     0x09, 0x00,
     0x0a, 0x00,
     0x0b, 0x00,
     0x10, 0x00,
     0x11, 0x00,
     0x12, 0xea,
     0x13, 0xc0,
     0x14, 0x05,
     0x15, 0x06,
     0x16, 0x53,
     0x19, 0x02,
     0x1A, 0x0A,
     0x1B, 0x0A,
     0x26, 0x12,
     0x27, 0xb8,
     0x28, 0x38,
     0x29, 0x38,
     0x2A, 0xb8,
     0x2e, 0x24,
     0x2f, 0x24,
     0x30, 0x00,
     0x31, 0x00,
     0xFF, 0xFF]"

definition csys_es8328_regs_quiet :: "u8 list" where
  "csys_es8328_regs_quiet =
    [0x2e, 0x00,
     0x2f, 0x00,
     0xFF, 0xFF]"

text \<open>
  The registers that the comments of the table name as output volumes
  (DAC LOUT1, ROUT1, LOUT2, ROUT2 volume).
\<close>

definition es8328_out_volume_regs :: "u8 list" where
  "es8328_out_volume_regs = [0x2e, 0x2f, 0x30, 0x31]"

subsection \<open>Handles, the runtime and the trace\<close>

text \<open>
  Devices and components are handles (the pointer values). A DAI carries the device
  that \<^verbatim>\<open>dev_err\<close> logs against. A pointer that may be null is an \<open>option\<close>, and
  \<^verbatim>\<open>components[]\<close> is indexable memory.
\<close>

type_synonym device = nat
type_synonym snd_soc_component = nat

record snd_soc_dai =
  dev :: device

record snd_soc_pcm_runtime =
  cpu_dai :: snd_soc_dai
  codec_dai :: snd_soc_dai
  num_components :: nat
  components :: "nat \<Rightarrow> snd_soc_component option"

record snd_pcm_substream =
  private_data :: snd_soc_pcm_runtime

record snd_pcm_hw_params =
  rate :: u32

datatype event =
    SetSysclk snd_soc_dai int nat clock_dir
  | RegWrite snd_soc_component u8 u8
  | DevErr device string

type_synonym hw = "event list"

text \<open>
  The answer of a DAI driver to a clock request is not decided by this driver: it is a
  parameter, and it may depend on everything that happened before the call.
\<close>

type_synonym sysclk_drv = "hw \<Rightarrow> snd_soc_dai \<Rightarrow> int \<Rightarrow> nat \<Rightarrow> clock_dir \<Rightarrow> int"

definition snd_soc_dai_set_sysclk ::
  "sysclk_drv \<Rightarrow> snd_soc_dai \<Rightarrow> int \<Rightarrow> nat \<Rightarrow> clock_dir \<Rightarrow> hw \<Rightarrow> int \<times> hw" where
  "snd_soc_dai_set_sysclk drv dai clk_id freq dir s =
     (drv s dai clk_id freq dir, s @ [SetSysclk dai clk_id freq dir])"

definition snd_soc_component_write :: "snd_soc_component \<Rightarrow> u8 \<Rightarrow> u8 \<Rightarrow> hw \<Rightarrow> hw" where
  "snd_soc_component_write codec reg val s = s @ [RegWrite codec reg val]"

definition dev_err :: "device \<Rightarrow> string \<Rightarrow> hw \<Rightarrow> hw" where
  "dev_err d msg s = s @ [DevErr d msg]"

definition params_rate :: "snd_pcm_hw_params \<Rightarrow> u32" where
  "params_rate params = rate params"

subsection \<open>The driver's functions\<close>

definition csys_audio_set_mclk :: "sysclk_drv \<Rightarrow> snd_soc_pcm_runtime \<Rightarrow> hw \<Rightarrow> int \<times> hw" where
  "csys_audio_set_mclk drv runtime s =
     (let cpu = cpu_dai runtime;
          codec = codec_dai runtime;
          (ret, s1) = snd_soc_dai_set_sysclk drv cpu 0 CSYS_AUDIO_MCLK SND_SOC_CLOCK_OUT s
      in if ret \<noteq> 0 then (ret, dev_err (dev cpu) (''Cannot set cpu MCLK'' @ [CHR 0x0A]) s1)
         else
           let (ret2, s2) =
                 snd_soc_dai_set_sysclk drv codec 0 CSYS_AUDIO_MCLK SND_SOC_CLOCK_OUT s1
           in if ret2 \<noteq> 0
              then (ret2, dev_err (dev codec) (''Cannot set codec MCLK'' @ [CHR 0x0A]) s2)
              else (0, s2))"

definition csys_audio_hw_params ::
  "sysclk_drv \<Rightarrow> snd_pcm_substream \<Rightarrow> snd_pcm_hw_params \<Rightarrow> hw \<Rightarrow> int \<times> hw" where
  "csys_audio_hw_params drv substream params s =
     (let rtd = private_data substream
      in if params_rate params \<noteq> CSYS_AUDIO_LRCLK then (- EINVAL, s)
         else
           let (ret, s1) = csys_audio_set_mclk drv rtd s
           in if ret \<noteq> 0 then (ret, s1) else (0, s1))"

text \<open>
  The loop \<^verbatim>\<open>for(i = 0; regs[i] != 0xFF; i += 2)\<close>. The array has no length in C: a
  read at or past the end of the table is undefined behaviour, which is the result
  \<open>None\<close> here.
\<close>

function set_es8328_regs_loop ::
  "snd_soc_component \<Rightarrow> u8 list \<Rightarrow> nat \<Rightarrow> hw \<Rightarrow> hw option" where
  "set_es8328_regs_loop codec regs i s =
     (if length regs \<le> i then None
      else if regs ! i = 0xFF then Some s
      else if length regs \<le> i + 1 then None
      else set_es8328_regs_loop codec regs (i + 2)
             (snd_soc_component_write codec (regs ! i) (regs ! (i + 1)) s))"
  by pat_completeness auto
termination
  by (relation "measure (\<lambda>(codec, regs, i, s). length regs - i)") auto

declare set_es8328_regs_loop.simps [simp del]

definition csys_audio_set_es8328_regs :: "snd_soc_component \<Rightarrow> u8 list \<Rightarrow> hw \<Rightarrow> hw option" where
  "csys_audio_set_es8328_regs codec regs s = set_es8328_regs_loop codec regs 0 s"

definition csys_audio_startup :: "snd_pcm_substream \<Rightarrow> hw \<Rightarrow> (int \<times> hw) option" where
  "csys_audio_startup substream s =
     (let rtd = private_data substream
      in if num_components rtd = 3 \<and> components rtd 1 \<noteq> None
         then
           (let codec = the (components rtd 1)
            in case csys_audio_set_es8328_regs codec csys_es8328_regs s of
                 None \<Rightarrow> None
               | Some s1 \<Rightarrow> Some (0, s1))
         else Some (0, s))"

definition csys_audio_shutdown :: "snd_pcm_substream \<Rightarrow> hw \<Rightarrow> hw option" where
  "csys_audio_shutdown substream s =
     (let rtd = private_data substream
      in if num_components rtd = 3 \<and> components rtd 1 \<noteq> None
         then
           (let codec = the (components rtd 1)
            in csys_audio_set_es8328_regs codec csys_es8328_regs_quiet s)
         else Some s)"

definition csys_audio_init :: "sysclk_drv \<Rightarrow> snd_soc_pcm_runtime \<Rightarrow> hw \<Rightarrow> (int \<times> hw) option" where
  "csys_audio_init drv runtime s =
     (let (ret, s1) = csys_audio_set_mclk drv runtime s
      in if ret \<noteq> 0 then Some (ret, s1)
         else if num_components runtime = 3 \<and> components runtime 1 \<noteq> None
         then
           (let codec = the (components runtime 1)
            in case csys_audio_set_es8328_regs codec csys_es8328_regs_quiet s1 of
                 None \<Rightarrow> None
               | Some s2 \<Rightarrow> Some (0, s2))
         else Some (0, s1))"

text \<open>
  \<^verbatim>\<open>rk_ops\<close> registers \<^verbatim>\<open>csys_audio_startup\<close> as \<^verbatim>\<open>.startup\<close> and
  \<^verbatim>\<open>csys_audio_hw_params\<close> as \<^verbatim>\<open>.hw_params\<close>. The caller of the two callbacks is
  the sound core, which is not part of this file: it calls \<^verbatim>\<open>.startup\<close> when the
  substream is opened and \<^verbatim>\<open>.hw_params\<close> when the stream's parameters are set
  afterwards, and a non-zero result of \<^verbatim>\<open>.startup\<close> fails the open. Starting a stream
  is the two callbacks in that order; neither of them calls the other.
\<close>

definition stream_start ::
  "sysclk_drv \<Rightarrow> snd_pcm_substream \<Rightarrow> snd_pcm_hw_params \<Rightarrow> hw \<Rightarrow> (int \<times> hw) option" where
  "stream_start drv substream params s =
     (case csys_audio_startup substream s of
        None \<Rightarrow> None
      | Some (ret, s1) \<Rightarrow>
          if ret \<noteq> 0 then Some (ret, s1)
          else Some (csys_audio_hw_params drv substream params s1))"

subsection \<open>Views of the trace and of a table\<close>

text \<open>The codec-present test that the three callbacks share.\<close>

definition codec_present :: "snd_soc_pcm_runtime \<Rightarrow> bool" where
  "codec_present rtd = (num_components rtd = 3 \<and> components rtd 1 \<noteq> None)"

fun is_reg_write :: "event \<Rightarrow> bool" where
  "is_reg_write (RegWrite c a v) = True"
| "is_reg_write e = False"

fun is_set_sysclk :: "event \<Rightarrow> bool" where
  "is_set_sysclk (SetSysclk d c f r) = True"
| "is_set_sysclk e = False"

text \<open>
  A register profile as the specification has it: a sequence of (address, value)
  entries. Its layout in memory is the entries' bytes one after the other.
\<close>

type_synonym register_entry = "u8 \<times> u8"

definition profile_bytes :: "register_entry list \<Rightarrow> u8 list" where
  "profile_bytes es = concat (map (\<lambda>(a, v). [a, v]) es)"

definition entry_writes :: "snd_soc_component \<Rightarrow> register_entry list \<Rightarrow> event list" where
  "entry_writes codec es = map (\<lambda>(a, v). RegWrite codec a v) es"

text \<open>
  The register state of one codec as the specification reads it off: for each address the
  last value written, and nothing for an address never written.
\<close>

definition reg_step :: "snd_soc_component \<Rightarrow> event \<Rightarrow> (u8 \<rightharpoonup> u8) \<Rightarrow> (u8 \<rightharpoonup> u8)" where
  "reg_step codec e m =
     (case e of
        RegWrite c a v \<Rightarrow> if c = codec then m(a \<mapsto> v) else m
      | SetSysclk d c f r \<Rightarrow> m
      | DevErr d msg \<Rightarrow> m)"

definition reg_state :: "snd_soc_component \<Rightarrow> hw \<Rightarrow> (u8 \<rightharpoonup> u8)" where
  "reg_state codec s = fold (reg_step codec) s Map.empty"

text \<open>The entries of the two tables that precede the sentinel.\<close>

definition active_entries :: "register_entry list" where
  "active_entries =
    [(0x00, 0x35), (0x03, 0x09), (0x09, 0x00), (0x0a, 0x00), (0x0b, 0x00), (0x10, 0x00),
     (0x11, 0x00), (0x12, 0xea), (0x13, 0xc0), (0x14, 0x05), (0x15, 0x06), (0x16, 0x53),
     (0x19, 0x02), (0x1A, 0x0A), (0x1B, 0x0A), (0x26, 0x12), (0x27, 0xb8), (0x28, 0x38),
     (0x29, 0x38), (0x2A, 0xb8), (0x2e, 0x24), (0x2f, 0x24), (0x30, 0x00), (0x31, 0x00)]"

definition quiet_entries :: "register_entry list" where
  "quiet_entries = [(0x2e, 0x00), (0x2f, 0x00)]"

text \<open>Pairing up the bytes of a table, two at a time.\<close>

fun table_entries :: "u8 list \<Rightarrow> register_entry list" where
  "table_entries (a # v # rest) = (a, v) # table_entries rest"
| "table_entries rest = []"

text \<open>The two clock requests that \<^verbatim>\<open>csys_audio_set_mclk\<close> can make.\<close>

definition cpu_clk_call :: "snd_soc_pcm_runtime \<Rightarrow> event" where
  "cpu_clk_call runtime = SetSysclk (cpu_dai runtime) 0 11289600 SND_SOC_CLOCK_OUT"

definition codec_clk_call :: "snd_soc_pcm_runtime \<Rightarrow> event" where
  "codec_clk_call runtime = SetSysclk (codec_dai runtime) 0 11289600 SND_SOC_CLOCK_OUT"

subsection \<open>Concrete inputs\<close>

text \<open>
  A link with the I2S controller on device 1, the codec DAI on device 2 and three
  components, the codec component (handle 7) in the middle slot; the same link with the
  middle slot empty; and three DAI drivers: one that accepts every clock request, one
  where the controller (device 1) refuses with \<^verbatim>\<open>-EIO\<close>, one where the codec (device 2)
  refuses with \<^verbatim>\<open>-EIO\<close>.
\<close>

definition link_with_codec :: snd_soc_pcm_runtime where
  "link_with_codec =
     \<lparr>cpu_dai = \<lparr>dev = 1\<rparr>, codec_dai = \<lparr>dev = 2\<rparr>, num_components = 3,
      components = (\<lambda>i. if i = 0 then Some 6 else if i = 1 then Some 7
                         else if i = 2 then Some 8 else None)\<rparr>"

definition link_without_codec :: snd_soc_pcm_runtime where
  "link_without_codec =
     \<lparr>cpu_dai = \<lparr>dev = 1\<rparr>, codec_dai = \<lparr>dev = 2\<rparr>, num_components = 3,
      components = (\<lambda>i. if i = 0 then Some 6 else if i = 2 then Some 8 else None)\<rparr>"

definition drv_ok :: sysclk_drv where
  "drv_ok s dai clk_id freq dir = 0"

definition drv_cpu_refuses :: sysclk_drv where
  "drv_cpu_refuses s dai clk_id freq dir = (if dev dai = 1 then - 5 else 0)"

definition drv_codec_refuses :: sysclk_drv where
  "drv_codec_refuses s dai clk_id freq dir = (if dev dai = 2 then - 5 else 0)"

section \<open>Properties\<close>

subsection \<open>The register loop\<close>

lemma length_profile_bytes: "length (profile_bytes es) = 2 * length es"
  by (induction es) (auto simp: profile_bytes_def)

lemma profile_bytes_append: "profile_bytes (xs @ ys) = profile_bytes xs @ profile_bytes ys"
  by (simp add: profile_bytes_def)

lemma loop_from_entry:
  "\<forall>e \<in> set rest. fst e \<noteq> 0xFF \<Longrightarrow>
   set_es8328_regs_loop codec (profile_bytes pre @ profile_bytes rest @ 0xFF # tail)
     (2 * length pre) s
   = Some (s @ entry_writes codec rest)"
proof (induction rest arbitrary: pre s)
  case Nil
  show ?case
    by (subst set_es8328_regs_loop.simps)
       (simp add: profile_bytes_def[of "[]"] entry_writes_def nth_append length_profile_bytes)
next
  case (Cons e rest)
  obtain a v where e: "e = (a, v)" by (cases e)
  from Cons.prems e have a: "a \<noteq> 0xFF" and rest: "\<forall>e \<in> set rest. fst e \<noteq> 0xFF"
    by auto
  let ?regs = "profile_bytes pre @ profile_bytes (e # rest) @ 0xFF # tail"
  have regs: "?regs = profile_bytes (pre @ [e]) @ profile_bytes rest @ 0xFF # tail"
    by (simp add: profile_bytes_def)
  have at0: "?regs ! (2 * length pre) = a"
    by (simp add: nth_append length_profile_bytes e profile_bytes_def[of "_ # _"])
  have at1: "?regs ! (2 * length pre + 1) = v"
    by (simp add: nth_append length_profile_bytes e profile_bytes_def[of "_ # _"])
  have len: "2 * length pre + 1 < length ?regs"
    by (simp add: length_profile_bytes)
  have "set_es8328_regs_loop codec ?regs (2 * length pre) s
        = set_es8328_regs_loop codec ?regs (2 * length pre + 2)
            (snd_soc_component_write codec a v s)"
    using at0 at1 len a by (subst set_es8328_regs_loop.simps) simp
  also have "\<dots> = set_es8328_regs_loop codec
                     (profile_bytes (pre @ [e]) @ profile_bytes rest @ 0xFF # tail)
                     (2 * length (pre @ [e])) (snd_soc_component_write codec a v s)"
    by (simp only: regs) simp
  also have "\<dots> = Some (snd_soc_component_write codec a v s @ entry_writes codec rest)"
    by (rule Cons.IH [OF rest])
  also have "\<dots> = Some (s @ entry_writes codec (e # rest))"
    by (simp add: snd_soc_component_write_def entry_writes_def e)
  finally show ?case .
qed

lemma set_regs_entries:
  "\<forall>e \<in> set es. fst e \<noteq> 0xFF \<Longrightarrow>
   csys_audio_set_es8328_regs codec (profile_bytes es @ 0xFF # tail) s
   = Some (s @ entry_writes codec es)"
  using loop_from_entry [of es codec "[]" tail s]
  by (simp add: csys_audio_set_es8328_regs_def profile_bytes_def[of "[]"])

lemma active_table: "csys_es8328_regs = profile_bytes active_entries @ 0xFF # [0xFF]"
  by (simp add: csys_es8328_regs_def active_entries_def profile_bytes_def)

lemma quiet_table: "csys_es8328_regs_quiet = profile_bytes quiet_entries @ 0xFF # [0xFF]"
  by (simp add: csys_es8328_regs_quiet_def quiet_entries_def profile_bytes_def)

lemma active_no_sentinel: "\<forall>e \<in> set active_entries. fst e \<noteq> 0xFF"
  by (simp add: active_entries_def)

lemma quiet_no_sentinel: "\<forall>e \<in> set quiet_entries. fst e \<noteq> 0xFF"
  by (simp add: quiet_entries_def)

lemma set_regs_active:
  "csys_audio_set_es8328_regs codec csys_es8328_regs s
   = Some (s @ entry_writes codec active_entries)"
  unfolding active_table by (rule set_regs_entries [OF active_no_sentinel])

lemma set_regs_quiet:
  "csys_audio_set_es8328_regs codec csys_es8328_regs_quiet s
   = Some (s @ entry_writes codec quiet_entries)"
  unfolding quiet_table by (rule set_regs_entries [OF quiet_no_sentinel])

subsection \<open>The clock synchronizer\<close>

lemma set_mclk_cases:
  "csys_audio_set_mclk drv runtime s =
     (if drv s (cpu_dai runtime) 0 11289600 SND_SOC_CLOCK_OUT \<noteq> 0
      then (drv s (cpu_dai runtime) 0 11289600 SND_SOC_CLOCK_OUT,
            s @ [cpu_clk_call runtime,
                 DevErr (dev (cpu_dai runtime)) (''Cannot set cpu MCLK'' @ [CHR 0x0A])])
      else if drv (s @ [cpu_clk_call runtime]) (codec_dai runtime) 0 11289600 SND_SOC_CLOCK_OUT
              \<noteq> 0
      then (drv (s @ [cpu_clk_call runtime]) (codec_dai runtime) 0 11289600 SND_SOC_CLOCK_OUT,
            s @ [cpu_clk_call runtime, codec_clk_call runtime,
                 DevErr (dev (codec_dai runtime)) (''Cannot set codec MCLK'' @ [CHR 0x0A])])
      else (0, s @ [cpu_clk_call runtime, codec_clk_call runtime]))"
  by (simp add: csys_audio_set_mclk_def snd_soc_dai_set_sysclk_def dev_err_def
      CSYS_AUDIO_MCLK_def cpu_clk_call_def codec_clk_call_def Let_def)

lemma set_mclk_no_reg_write:
  "filter is_reg_write (snd (csys_audio_set_mclk drv runtime s)) = filter is_reg_write s"
  by (simp add: set_mclk_cases cpu_clk_call_def codec_clk_call_def)

text \<open>
  C2. \<^verbatim>\<open>csys_audio_set_mclk\<close> asks the interface DAI for the master clock 11289600 first.
  If the interface refuses, the function returns the interface's error and the only clock
  request in the trace is the interface's: the codec is never asked. If the interface
  accepts, the codec DAI is asked next for the same frequency; if it refuses, the function
  returns the codec's error; if both accept, it returns 0 with the two requests made in
  the order interface, codec.
\<close>

theorem set_mclk_interface_then_codec:
  "(drv s (cpu_dai runtime) 0 11289600 SND_SOC_CLOCK_OUT = r1 \<and> r1 \<noteq> 0 \<longrightarrow>
      csys_audio_set_mclk drv runtime s =
        (r1, s @ [SetSysclk (cpu_dai runtime) 0 11289600 SND_SOC_CLOCK_OUT,
                  DevErr (dev (cpu_dai runtime)) (''Cannot set cpu MCLK'' @ [CHR 0x0A])]))
   \<and> (drv s (cpu_dai runtime) 0 11289600 SND_SOC_CLOCK_OUT = 0
      \<and> drv (s @ [SetSysclk (cpu_dai runtime) 0 11289600 SND_SOC_CLOCK_OUT])
            (codec_dai runtime) 0 11289600 SND_SOC_CLOCK_OUT = r2 \<and> r2 \<noteq> 0 \<longrightarrow>
      csys_audio_set_mclk drv runtime s =
        (r2, s @ [SetSysclk (cpu_dai runtime) 0 11289600 SND_SOC_CLOCK_OUT,
                  SetSysclk (codec_dai runtime) 0 11289600 SND_SOC_CLOCK_OUT,
                  DevErr (dev (codec_dai runtime)) (''Cannot set codec MCLK'' @ [CHR 0x0A])]))
   \<and> (drv s (cpu_dai runtime) 0 11289600 SND_SOC_CLOCK_OUT = 0
      \<and> drv (s @ [SetSysclk (cpu_dai runtime) 0 11289600 SND_SOC_CLOCK_OUT])
            (codec_dai runtime) 0 11289600 SND_SOC_CLOCK_OUT = 0 \<longrightarrow>
      csys_audio_set_mclk drv runtime s =
        (0, s @ [SetSysclk (cpu_dai runtime) 0 11289600 SND_SOC_CLOCK_OUT,
                 SetSysclk (codec_dai runtime) 0 11289600 SND_SOC_CLOCK_OUT]))"
  by (auto simp: set_mclk_cases cpu_clk_call_def codec_clk_call_def)

theorem set_mclk_interface_then_codec_witness:
  "csys_audio_set_mclk drv_cpu_refuses link_with_codec [] =
     (- 5, [SetSysclk \<lparr>dev = 1\<rparr> 0 11289600 SND_SOC_CLOCK_OUT,
            DevErr 1 (''Cannot set cpu MCLK'' @ [CHR 0x0A])])
   \<and> csys_audio_set_mclk drv_codec_refuses link_with_codec [] =
     (- 5, [SetSysclk \<lparr>dev = 1\<rparr> 0 11289600 SND_SOC_CLOCK_OUT,
            SetSysclk \<lparr>dev = 2\<rparr> 0 11289600 SND_SOC_CLOCK_OUT,
            DevErr 2 (''Cannot set codec MCLK'' @ [CHR 0x0A])])
   \<and> csys_audio_set_mclk drv_ok link_with_codec [] =
     (0, [SetSysclk \<lparr>dev = 1\<rparr> 0 11289600 SND_SOC_CLOCK_OUT,
          SetSysclk \<lparr>dev = 2\<rparr> 0 11289600 SND_SOC_CLOCK_OUT])"
  using set_mclk_interface_then_codec [of drv_cpu_refuses "[]" link_with_codec "- 5" 0]
    set_mclk_interface_then_codec [of drv_codec_refuses "[]" link_with_codec 0 "- 5"]
    set_mclk_interface_then_codec [of drv_ok "[]" link_with_codec 0 0]
  by (simp add: drv_cpu_refuses_def drv_codec_refuses_def drv_ok_def link_with_codec_def)

subsection \<open>Applying a table\<close>

text \<open>
  C3. For every table whose entries \<open>es\<close> have addresses other than 0xFF and are
  followed by the sentinel address 0xFF (and then by anything at all),
  \<^verbatim>\<open>csys_audio_set_es8328_regs\<close> returns, and what it adds to the trace is exactly one
  write per entry of \<open>es\<close>, in table order, with the entry's address and value: the
  sentinel entry and whatever follows it are never written.
\<close>

theorem set_es8328_regs_writes_up_to_sentinel:
  "\<forall>e \<in> set es. fst e \<noteq> 0xFF \<Longrightarrow>
   csys_audio_set_es8328_regs codec (profile_bytes es @ 0xFF # tail) s
   = Some (s @ map (\<lambda>(a, v). RegWrite codec a v) es)"
  using set_regs_entries [of es codec tail s] by (simp add: entry_writes_def)

theorem set_es8328_regs_writes_up_to_sentinel_witness:
  "(0xFF :: u8) \<notin> set (map fst [(1, 2), (3, 0xFF :: u8)])
   \<and> csys_audio_set_es8328_regs 7 [1, 2, 3, 0xFF, 0xFF, 0xFF, 4, 5] [RegWrite 7 9 9]
     = Some [RegWrite 7 9 9, RegWrite 7 1 2, RegWrite 7 3 0xFF]"
  using set_es8328_regs_writes_up_to_sentinel
          [of "[(1, 2), (3, 0xFF)]" 7 "[0xFF, 4, 5]" "[RegWrite 7 9 9]"]
  by (simp add: profile_bytes_def)

subsection \<open>Register state\<close>

lemma reg_state_append: "reg_state c (s @ t) = fold (reg_step c) t (reg_state c s)"
  by (simp add: reg_state_def)

lemma fold_entry_writes_same:
  "fold (reg_step c) (entry_writes c es) m = m ++ map_of (rev es)"
proof (induction es arbitrary: m)
  case Nil
  show ?case by (simp add: entry_writes_def)
next
  case (Cons e es)
  obtain a v where e: "e = (a, v)" by (cases e)
  have "fold (reg_step c) (entry_writes c (e # es)) m =
        fold (reg_step c) (entry_writes c es) (m(a \<mapsto> v))"
    by (simp add: entry_writes_def e reg_step_def)
  also have "\<dots> = m(a \<mapsto> v) ++ map_of (rev es)"
    by (rule Cons.IH)
  also have "\<dots> = m ++ map_of (rev (e # es))"
    by (simp add: e fun_eq_iff map_add_def split: option.splits)
  finally show ?case .
qed

lemma fold_entry_writes_other:
  "codec \<noteq> c \<Longrightarrow> fold (reg_step c) (entry_writes codec es) m = m"
  by (induction es arbitrary: m) (simp_all add: entry_writes_def reg_step_def split_def)

lemma map_add_twice: "(m ++ f) ++ f = m ++ f"
  by (simp add: fun_eq_iff map_add_def split: option.splits)

lemma map_add_covered: "dom g \<subseteq> dom f \<Longrightarrow> (m ++ g) ++ f = m ++ f"
  by (auto simp: fun_eq_iff map_add_def split: option.splits)

lemma reg_state_writes_twice:
  "reg_state c ((s @ entry_writes codec es) @ entry_writes codec es)
   = reg_state c (s @ entry_writes codec es)"
proof (cases "codec = c")
  case True
  then show ?thesis
    by (simp only: reg_state_append fold_entry_writes_same map_add_twice)
next
  case False
  then show ?thesis
    by (simp add: reg_state_append fold_entry_writes_other)
qed

lemma quiet_within_active:
  "dom (map_of (rev quiet_entries)) \<subseteq> dom (map_of (rev active_entries))"
  by (simp add: dom_map_of_conv_image_fst quiet_entries_def active_entries_def)

lemma reg_state_active_quiet_active:
  "reg_state c (((s @ entry_writes codec active_entries) @ entry_writes codec quiet_entries)
                @ entry_writes codec active_entries)
   = reg_state c (s @ entry_writes codec active_entries)"
proof (cases "codec = c")
  case True
  then show ?thesis
    by (simp only: reg_state_append fold_entry_writes_same
          map_add_covered [OF quiet_within_active] map_add_twice)
next
  case False
  then show ?thesis
    by (simp add: reg_state_append fold_entry_writes_other)
qed

text \<open>
  C4. With the register state of a codec read off the trace as the map from each address
  to the last value written to it: from any starting trace, applying the ACTIVE table,
  then the QUIET table, then the ACTIVE table again leaves every codec in the register
  state that applying the ACTIVE table alone leaves it in; and for every table that is
  terminated by the sentinel address, applying it twice in a row leaves the register
  state that applying it once leaves. All the applications return.
\<close>

theorem active_quiet_active_same_registers:
  "(\<exists>s1 s2 s3.
      csys_audio_set_es8328_regs codec csys_es8328_regs s = Some s1
      \<and> csys_audio_set_es8328_regs codec csys_es8328_regs_quiet s1 = Some s2
      \<and> csys_audio_set_es8328_regs codec csys_es8328_regs s2 = Some s3
      \<and> reg_state c s3 = reg_state c s1)
   \<and> ((\<forall>e \<in> set es. fst e \<noteq> 0xFF) \<longrightarrow>
      (\<exists>s1 s2.
         csys_audio_set_es8328_regs codec (profile_bytes es @ 0xFF # tail) s = Some s1
         \<and> csys_audio_set_es8328_regs codec (profile_bytes es @ 0xFF # tail) s1 = Some s2
         \<and> reg_state c s2 = reg_state c s1))"
proof (intro conjI impI)
  show "\<exists>s1 s2 s3.
      csys_audio_set_es8328_regs codec csys_es8328_regs s = Some s1
      \<and> csys_audio_set_es8328_regs codec csys_es8328_regs_quiet s1 = Some s2
      \<and> csys_audio_set_es8328_regs codec csys_es8328_regs s2 = Some s3
      \<and> reg_state c s3 = reg_state c s1"
    using reg_state_active_quiet_active [of c s codec]
    by (simp add: set_regs_active set_regs_quiet)
next
  assume es: "\<forall>e \<in> set es. fst e \<noteq> 0xFF"
  show "\<exists>s1 s2.
         csys_audio_set_es8328_regs codec (profile_bytes es @ 0xFF # tail) s = Some s1
         \<and> csys_audio_set_es8328_regs codec (profile_bytes es @ 0xFF # tail) s1 = Some s2
         \<and> reg_state c s2 = reg_state c s1"
    using reg_state_writes_twice [of c s codec es]
    by (simp add: set_regs_entries [OF es])
qed

theorem active_quiet_active_same_registers_witness:
  "(0xFF :: u8) \<notin> set (map fst [(0x2e, 0x24), (0x2e, 0 :: u8)])
   \<and> (\<exists>s1 s2.
         csys_audio_set_es8328_regs 7 [0x2e, 0x24, 0x2e, 0, 0xFF, 0xFF] [] = Some s1
         \<and> csys_audio_set_es8328_regs 7 [0x2e, 0x24, 0x2e, 0, 0xFF, 0xFF] s1 = Some s2
         \<and> reg_state 7 s2 = reg_state 7 s1)"
  using active_quiet_active_same_registers
          [of 7 "[]" 7 "[(0x2e, 0x24), (0x2e, 0)]" "[0xFF]"]
  by (simp add: profile_bytes_def)

subsection \<open>The callbacks\<close>

lemma startup_result:
  "csys_audio_startup substream s =
     Some (0, if codec_present (private_data substream)
              then s @ entry_writes (the (components (private_data substream) 1)) active_entries
              else s)"
  by (auto simp: csys_audio_startup_def codec_present_def set_regs_active Let_def)

lemma shutdown_result:
  "csys_audio_shutdown substream s =
     Some (if codec_present (private_data substream)
           then s @ entry_writes (the (components (private_data substream) 1)) quiet_entries
           else s)"
  by (auto simp: csys_audio_shutdown_def codec_present_def set_regs_quiet Let_def)

lemma init_result:
  "csys_audio_init drv runtime s =
     (if fst (csys_audio_set_mclk drv runtime s) \<noteq> 0
      then Some (csys_audio_set_mclk drv runtime s)
      else Some (0, if codec_present runtime
                    then snd (csys_audio_set_mclk drv runtime s)
                         @ entry_writes (the (components runtime 1)) quiet_entries
                    else snd (csys_audio_set_mclk drv runtime s)))"
  by (auto simp: csys_audio_init_def codec_present_def set_regs_quiet Let_def split_def)

lemma hw_params_result:
  "csys_audio_hw_params drv substream params s =
     (if rate params \<noteq> 44100 then (- 22, s)
      else csys_audio_set_mclk drv (private_data substream) s)"
  by (simp add: csys_audio_hw_params_def params_rate_def CSYS_AUDIO_LRCLK_def EINVAL_def
      Let_def split_def prod_eq_iff)

lemma stream_start_result:
  "stream_start drv substream params s =
     Some (csys_audio_hw_params drv substream params
            (if codec_present (private_data substream)
             then s @ entry_writes (the (components (private_data substream) 1)) active_entries
             else s))"
  by (simp add: stream_start_def startup_result)

lemma quiet_writes: "entry_writes codec quiet_entries = [RegWrite codec 0x2e 0, RegWrite codec 0x2f 0]"
  by (simp add: entry_writes_def quiet_entries_def)

lemma reg_writes_entry_writes: "filter is_reg_write (entry_writes codec es) = entry_writes codec es"
  by (induction es) (auto simp: entry_writes_def)

lemma no_sysclk_entry_writes: "filter is_set_sysclk (entry_writes codec es) = []"
  by (induction es) (auto simp: entry_writes_def)

text \<open>
  C5. \<^verbatim>\<open>csys_audio_init\<close> calls \<^verbatim>\<open>csys_audio_set_mclk\<close> first. If that returns a
  non-zero code, the init returns that code in the state the clock call left, to which no
  register write has been added. If it returns 0 and a codec component is present
  (three components, the middle one not null), the init returns 0 and adds exactly the two
  writes of the QUIET table (0x2e := 0, 0x2f := 0), which are not the writes of the ACTIVE
  table.
\<close>

theorem init_clock_then_quiet:
  "(csys_audio_set_mclk drv runtime s = (ret, s1) \<and> ret \<noteq> 0 \<longrightarrow>
      csys_audio_init drv runtime s = Some (ret, s1)
      \<and> filter is_reg_write s1 = filter is_reg_write s)
   \<and> (csys_audio_set_mclk drv runtime s = (0, s1)
      \<and> num_components runtime = 3 \<and> components runtime 1 = Some codec \<longrightarrow>
      csys_audio_init drv runtime s
        = Some (0, s1 @ [RegWrite codec 0x2e 0, RegWrite codec 0x2f 0])
      \<and> filter is_reg_write s1 = filter is_reg_write s
      \<and> [RegWrite codec 0x2e 0, RegWrite codec 0x2f 0] \<noteq> entry_writes codec active_entries)"
proof (intro conjI impI)
  assume a: "csys_audio_set_mclk drv runtime s = (ret, s1) \<and> ret \<noteq> 0"
  then show "csys_audio_init drv runtime s = Some (ret, s1)"
    by (simp add: init_result)
  from a show "filter is_reg_write s1 = filter is_reg_write s"
    using set_mclk_no_reg_write [of drv runtime s] by simp
next
  assume a: "csys_audio_set_mclk drv runtime s = (0, s1)
      \<and> num_components runtime = 3 \<and> components runtime 1 = Some codec"
  then show "csys_audio_init drv runtime s
        = Some (0, s1 @ [RegWrite codec 0x2e 0, RegWrite codec 0x2f 0])"
    by (simp add: init_result codec_present_def quiet_writes)
  from a show "filter is_reg_write s1 = filter is_reg_write s"
    using set_mclk_no_reg_write [of drv runtime s] by simp
  show "[RegWrite codec 0x2e 0, RegWrite codec 0x2f 0] \<noteq> entry_writes codec active_entries"
    by (simp add: entry_writes_def active_entries_def)
qed

theorem init_clock_then_quiet_witness:
  "csys_audio_init drv_cpu_refuses link_with_codec [] =
     Some (- 5, [SetSysclk \<lparr>dev = 1\<rparr> 0 11289600 SND_SOC_CLOCK_OUT,
                 DevErr 1 (''Cannot set cpu MCLK'' @ [CHR 0x0A])])
   \<and> csys_audio_init drv_ok link_with_codec [] =
     Some (0, [SetSysclk \<lparr>dev = 1\<rparr> 0 11289600 SND_SOC_CLOCK_OUT,
               SetSysclk \<lparr>dev = 2\<rparr> 0 11289600 SND_SOC_CLOCK_OUT,
               RegWrite 7 0x2e 0, RegWrite 7 0x2f 0])"
proof -
  have bad: "csys_audio_set_mclk drv_cpu_refuses link_with_codec [] =
     (- 5, [SetSysclk \<lparr>dev = 1\<rparr> 0 11289600 SND_SOC_CLOCK_OUT,
            DevErr 1 (''Cannot set cpu MCLK'' @ [CHR 0x0A])])"
    by (simp add: set_mclk_cases drv_cpu_refuses_def link_with_codec_def cpu_clk_call_def)
  have ok: "csys_audio_set_mclk drv_ok link_with_codec [] =
     (0, [SetSysclk \<lparr>dev = 1\<rparr> 0 11289600 SND_SOC_CLOCK_OUT,
          SetSysclk \<lparr>dev = 2\<rparr> 0 11289600 SND_SOC_CLOCK_OUT])"
    by (simp add: set_mclk_cases drv_ok_def link_with_codec_def cpu_clk_call_def
        codec_clk_call_def)
  have present: "num_components link_with_codec = 3 \<and> components link_with_codec 1 = Some 7"
    by (simp add: link_with_codec_def)
  show ?thesis
    using init_clock_then_quiet [of drv_cpu_refuses link_with_codec "[]" "- 5"
            "[SetSysclk \<lparr>dev = 1\<rparr> 0 11289600 SND_SOC_CLOCK_OUT,
              DevErr 1 (''Cannot set cpu MCLK'' @ [CHR 0x0A])]" 7]
          init_clock_then_quiet [of drv_ok link_with_codec "[]" 0
            "[SetSysclk \<lparr>dev = 1\<rparr> 0 11289600 SND_SOC_CLOCK_OUT,
              SetSysclk \<lparr>dev = 2\<rparr> 0 11289600 SND_SOC_CLOCK_OUT]" 7]
          bad ok present
    by simp
qed

text \<open>
  C7. \<^verbatim>\<open>csys_audio_shutdown\<close> returns nothing that could carry an error, and it always
  returns. From every state, whatever happened before and in particular whatever the
  preceding stream start returned, when a codec component is present it adds exactly
  the two writes of the QUIET table (0x2e := 0, 0x2f := 0).
\<close>

theorem shutdown_always_quiet:
  "(\<exists>s'. csys_audio_shutdown substream s = Some s')
   \<and> (num_components (private_data substream) = 3
      \<and> components (private_data substream) 1 = Some codec \<longrightarrow>
      csys_audio_shutdown substream s
        = Some (s @ [RegWrite codec 0x2e 0, RegWrite codec 0x2f 0]))
   \<and> (stream_start drv substream params s0 = Some (r, s)
      \<and> num_components (private_data substream) = 3
      \<and> components (private_data substream) 1 = Some codec \<longrightarrow>
      csys_audio_shutdown substream s
        = Some (s @ [RegWrite codec 0x2e 0, RegWrite codec 0x2f 0]))"
  by (simp add: shutdown_result codec_present_def quiet_writes)

theorem shutdown_always_quiet_witness:
  "stream_start drv_ok \<lparr>private_data = link_with_codec\<rparr> \<lparr>rate = 48000\<rparr> []
     = Some (- 22, entry_writes 7 active_entries)
   \<and> csys_audio_shutdown \<lparr>private_data = link_with_codec\<rparr> (entry_writes 7 active_entries)
     = Some (entry_writes 7 active_entries @ [RegWrite 7 0x2e 0, RegWrite 7 0x2f 0])
   \<and> csys_audio_shutdown \<lparr>private_data = link_with_codec\<rparr> []
     = Some [RegWrite 7 0x2e 0, RegWrite 7 0x2f 0]"
proof -
  have start: "stream_start drv_ok \<lparr>private_data = link_with_codec\<rparr> \<lparr>rate = 48000\<rparr> []
     = Some (- 22, entry_writes 7 active_entries)"
    by (simp add: stream_start_result hw_params_result codec_present_def link_with_codec_def)
  have present: "num_components (private_data \<lparr>private_data = link_with_codec\<rparr>) = 3
      \<and> components (private_data \<lparr>private_data = link_with_codec\<rparr>) 1 = Some 7"
    by (simp add: link_with_codec_def)
  show ?thesis
    using shutdown_always_quiet [of "\<lparr>private_data = link_with_codec\<rparr>"
            "entry_writes 7 active_entries" 7 drv_ok "\<lparr>rate = 48000\<rparr>" "[]" "- 22"]
          shutdown_always_quiet [of "\<lparr>private_data = link_with_codec\<rparr>"
            "[]" 7 drv_ok "\<lparr>rate = 48000\<rparr>" "[]" "- 22"]
          start present
    by simp
qed

subsection \<open>The tables\<close>

text \<open>
  C9. Read as (address, value) entries, each of the two tables is whole entries only and
  ends with the sentinel entry (0xFF, 0xFF), and no entry before that last one has the
  address 0xFF. The entries of the QUIET table before the sentinel have addresses among
  the output volume registers (0x2e and 0x2f are LOUT1 and ROUT1 volume), each of these
  addresses is also an address of an entry of the ACTIVE table, and each of their values
  is zero.
\<close>

theorem tables_sentinel_and_quiet_subset:
  "profile_bytes (table_entries csys_es8328_regs) = csys_es8328_regs
   \<and> last (table_entries csys_es8328_regs) = (0xFF, 0xFF)
   \<and> 0xFF \<notin> set (map fst (butlast (table_entries csys_es8328_regs)))
   \<and> profile_bytes (table_entries csys_es8328_regs_quiet) = csys_es8328_regs_quiet
   \<and> last (table_entries csys_es8328_regs_quiet) = (0xFF, 0xFF)
   \<and> 0xFF \<notin> set (map fst (butlast (table_entries csys_es8328_regs_quiet)))
   \<and> butlast (table_entries csys_es8328_regs_quiet) = [(0x2e, 0), (0x2f, 0)]
   \<and> set (map fst (butlast (table_entries csys_es8328_regs_quiet)))
       \<subseteq> set es8328_out_volume_regs
   \<and> set (map fst (butlast (table_entries csys_es8328_regs_quiet)))
       \<subseteq> set (map fst (butlast (table_entries csys_es8328_regs)))
   \<and> set (map snd (butlast (table_entries csys_es8328_regs_quiet))) = {0}
   \<and> butlast (table_entries csys_es8328_regs) = active_entries
   \<and> butlast (table_entries csys_es8328_regs_quiet) = quiet_entries"
  by (simp add: csys_es8328_regs_def csys_es8328_regs_quiet_def profile_bytes_def
      es8328_out_volume_regs_def active_entries_def quiet_entries_def)

subsection \<open>Starting a stream\<close>

text \<open>
  C10. \<^verbatim>\<open>csys_audio_startup\<close> returns 0 from every state and for every runtime. When a
  codec component is present it is the step that writes the ACTIVE table; otherwise it
  leaves the state as it was. Starting a stream runs \<^verbatim>\<open>csys_audio_hw_params\<close>, which
  checks the rate, only afterwards, on the state that the startup left.
\<close>

theorem startup_never_fails:
  "\<exists>s1. csys_audio_startup substream s = Some (0, s1)
     \<and> (num_components (private_data substream) = 3
        \<and> components (private_data substream) 1 = Some codec \<longrightarrow>
          s1 = s @ entry_writes codec active_entries)
     \<and> (\<not> (num_components (private_data substream) = 3
           \<and> components (private_data substream) 1 \<noteq> None) \<longrightarrow> s1 = s)
     \<and> stream_start drv substream params s
         = Some (csys_audio_hw_params drv substream params s1)"
  by (auto simp: startup_result stream_start_result codec_present_def)

theorem startup_never_fails_witness:
  "csys_audio_startup \<lparr>private_data = link_with_codec\<rparr> [] =
     Some (0, entry_writes 7 active_entries)
   \<and> csys_audio_startup \<lparr>private_data = link_without_codec\<rparr> [] = Some (0, [])
   \<and> stream_start drv_ok \<lparr>private_data = link_with_codec\<rparr> \<lparr>rate = 48000\<rparr> []
       = Some (csys_audio_hw_params drv_ok \<lparr>private_data = link_with_codec\<rparr> \<lparr>rate = 48000\<rparr>
                (entry_writes 7 active_entries))"
  using startup_never_fails [of "\<lparr>private_data = link_with_codec\<rparr>" "[]" 7 drv_ok
          "\<lparr>rate = 48000\<rparr>"]
        startup_never_fails [of "\<lparr>private_data = link_without_codec\<rparr>" "[]" 7 drv_ok
          "\<lparr>rate = 48000\<rparr>"]
  by (auto simp: link_with_codec_def link_without_codec_def)

text \<open>
  C1, as the code has it. For every rate other than 44100, \<^verbatim>\<open>csys_audio_hw_params\<close>
  returns \<^verbatim>\<open>-EINVAL\<close> (-22) and leaves the state as it found it: it makes no clock request
  and no register write. Starting a stream with such a rate is therefore rejected with
  -22 and makes no clock request, but its state is the one the startup step left: with a
  codec component present the ACTIVE table has been written by then, and only without one
  is the state unchanged.
\<close>

theorem stream_start_wrong_rate:
  "rate params \<noteq> 44100 \<Longrightarrow>
   csys_audio_hw_params drv substream params s = (- 22, s)
   \<and> (\<exists>s1. csys_audio_startup substream s = Some (0, s1)
         \<and> stream_start drv substream params s = Some (- 22, s1)
         \<and> filter is_set_sysclk s1 = filter is_set_sysclk s
         \<and> (num_components (private_data substream) = 3
            \<and> components (private_data substream) 1 = Some codec \<longrightarrow>
              s1 = s @ entry_writes codec active_entries)
         \<and> (\<not> (num_components (private_data substream) = 3
               \<and> components (private_data substream) 1 \<noteq> None) \<longrightarrow> s1 = s))"
  by (auto simp: startup_result stream_start_result hw_params_result codec_present_def
      no_sysclk_entry_writes)

theorem stream_start_wrong_rate_witness:
  "rate \<lparr>rate = 48000\<rparr> \<noteq> 44100
   \<and> csys_audio_hw_params drv_ok \<lparr>private_data = link_with_codec\<rparr> \<lparr>rate = 48000\<rparr> []
       = (- 22, [])
   \<and> stream_start drv_ok \<lparr>private_data = link_with_codec\<rparr> \<lparr>rate = 48000\<rparr> []
       = Some (- 22, entry_writes 7 active_entries)
   \<and> stream_start drv_ok \<lparr>private_data = link_without_codec\<rparr> \<lparr>rate = 48000\<rparr> []
       = Some (- 22, [])"
  using stream_start_wrong_rate [of "\<lparr>rate = 48000\<rparr>" drv_ok
          "\<lparr>private_data = link_with_codec\<rparr>" "[]" 7]
        stream_start_wrong_rate [of "\<lparr>rate = 48000\<rparr>" drv_ok
          "\<lparr>private_data = link_without_codec\<rparr>" "[]" 7]
  by (auto simp: link_with_codec_def link_without_codec_def)

text \<open>
  The claim C1 as it is written fails on a link with a codec: the request for 48000 is
  rejected with -22, and by then the 24 writes of the ACTIVE table have been made, among
  them the one that sets the LOUT1 volume to 0x24.
\<close>

theorem stream_start_wrong_rate_counterexample:
  "stream_start drv_ok \<lparr>private_data = link_with_codec\<rparr> \<lparr>rate = 48000\<rparr> []
     = Some (- 22, entry_writes 7 active_entries)
   \<and> filter is_reg_write (entry_writes 7 active_entries) \<noteq> []
   \<and> length (filter is_reg_write (entry_writes 7 active_entries)) = 24
   \<and> RegWrite 7 0x2e 0x24 \<in> set (entry_writes 7 active_entries)"
proof -
  have "stream_start drv_ok \<lparr>private_data = link_with_codec\<rparr> \<lparr>rate = 48000\<rparr> []
     = Some (- 22, entry_writes 7 active_entries)"
    by (simp add: stream_start_result hw_params_result codec_present_def link_with_codec_def)
  moreover have "length (entry_writes 7 active_entries) = 24"
    by (simp add: entry_writes_def active_entries_def)
  moreover have "RegWrite 7 0x2e 0x24 \<in> set (entry_writes 7 active_entries)"
    by (simp add: entry_writes_def active_entries_def)
  ultimately show ?thesis
    by (auto simp: reg_writes_entry_writes)
qed

text \<open>
  C6, as the code has it. Starting a stream with the rate 44100 first runs the startup
  step, which writes the ACTIVE table when a codec component is present. Then the rate is
  accepted and \<^verbatim>\<open>csys_audio_set_mclk\<close> is run once: when the interface DAI and then the
  codec DAI both accept the clock, the start returns 0, and what it added to the state is
  the ACTIVE writes (if any) followed by the interface's clock request and then the
  codec's. The clock requests come after the ACTIVE writes, not before them.
\<close>

theorem stream_start_supported_rate:
  "rate params = 44100 \<Longrightarrow>
   csys_audio_startup substream s = Some (0, s1) \<Longrightarrow>
   drv s1 (cpu_dai (private_data substream)) 0 11289600 SND_SOC_CLOCK_OUT = 0 \<Longrightarrow>
   drv (s1 @ [SetSysclk (cpu_dai (private_data substream)) 0 11289600 SND_SOC_CLOCK_OUT])
       (codec_dai (private_data substream)) 0 11289600 SND_SOC_CLOCK_OUT = 0 \<Longrightarrow>
   stream_start drv substream params s
     = Some (0, s1 @ [SetSysclk (cpu_dai (private_data substream)) 0 11289600 SND_SOC_CLOCK_OUT,
                      SetSysclk (codec_dai (private_data substream)) 0 11289600
                        SND_SOC_CLOCK_OUT])
   \<and> (num_components (private_data substream) = 3
      \<and> components (private_data substream) 1 = Some codec \<longrightarrow>
        s1 = s @ entry_writes codec active_entries)
   \<and> (\<not> (num_components (private_data substream) = 3
         \<and> components (private_data substream) 1 \<noteq> None) \<longrightarrow> s1 = s)"
  by (auto simp: startup_result stream_start_result hw_params_result codec_present_def
      set_mclk_cases cpu_clk_call_def codec_clk_call_def)

theorem stream_start_supported_rate_witness:
  "rate \<lparr>rate = 44100\<rparr> = 44100
   \<and> csys_audio_startup \<lparr>private_data = link_with_codec\<rparr> []
       = Some (0, entry_writes 7 active_entries)
   \<and> stream_start drv_ok \<lparr>private_data = link_with_codec\<rparr> \<lparr>rate = 44100\<rparr> []
       = Some (0, entry_writes 7 active_entries
                  @ [SetSysclk \<lparr>dev = 1\<rparr> 0 11289600 SND_SOC_CLOCK_OUT,
                     SetSysclk \<lparr>dev = 2\<rparr> 0 11289600 SND_SOC_CLOCK_OUT])"
proof -
  have st: "csys_audio_startup \<lparr>private_data = link_with_codec\<rparr> []
       = Some (0, entry_writes 7 active_entries)"
    by (simp add: startup_result codec_present_def link_with_codec_def)
  have r: "rate \<lparr>rate = 44100\<rparr> = 44100"
    by simp
  have c1: "drv_ok (entry_writes 7 active_entries)
              (cpu_dai (private_data \<lparr>private_data = link_with_codec\<rparr>)) 0 11289600
              SND_SOC_CLOCK_OUT = 0"
    by (simp add: drv_ok_def)
  have c2: "drv_ok (entry_writes 7 active_entries
                    @ [SetSysclk (cpu_dai (private_data \<lparr>private_data = link_with_codec\<rparr>))
                         0 11289600 SND_SOC_CLOCK_OUT])
              (codec_dai (private_data \<lparr>private_data = link_with_codec\<rparr>)) 0 11289600
              SND_SOC_CLOCK_OUT = 0"
    by (simp add: drv_ok_def)
  show ?thesis
    using stream_start_supported_rate [of "\<lparr>rate = 44100\<rparr>"
            "\<lparr>private_data = link_with_codec\<rparr>" "[]" "entry_writes 7 active_entries"
            drv_ok 7]
          r st c1 c2
    by (simp add: link_with_codec_def)
qed

text \<open>
  The claim C6 as it is written fails on a link with a codec. With DAI drivers that accept
  every clock, the start with 44100 returns 0 and its trace is the ACTIVE writes followed
  by the two clock requests, not the two clock requests followed by the ACTIVE writes. With
  an interface DAI that refuses the clock, the start with 44100 does not succeed: it
  returns the interface's error, after the ACTIVE writes.
\<close>

theorem stream_start_supported_rate_counterexample:
  "stream_start drv_ok \<lparr>private_data = link_with_codec\<rparr> \<lparr>rate = 44100\<rparr> []
     = Some (0, entry_writes 7 active_entries
                @ [SetSysclk \<lparr>dev = 1\<rparr> 0 11289600 SND_SOC_CLOCK_OUT,
                   SetSysclk \<lparr>dev = 2\<rparr> 0 11289600 SND_SOC_CLOCK_OUT])
   \<and> stream_start drv_ok \<lparr>private_data = link_with_codec\<rparr> \<lparr>rate = 44100\<rparr> []
     \<noteq> Some (0, [SetSysclk \<lparr>dev = 1\<rparr> 0 11289600 SND_SOC_CLOCK_OUT,
                  SetSysclk \<lparr>dev = 2\<rparr> 0 11289600 SND_SOC_CLOCK_OUT]
                 @ entry_writes 7 active_entries)
   \<and> hd (entry_writes 7 active_entries
          @ [SetSysclk \<lparr>dev = 1\<rparr> 0 11289600 SND_SOC_CLOCK_OUT,
             SetSysclk \<lparr>dev = 2\<rparr> 0 11289600 SND_SOC_CLOCK_OUT])
       = RegWrite 7 0x00 0x35
   \<and> stream_start drv_cpu_refuses \<lparr>private_data = link_with_codec\<rparr> \<lparr>rate = 44100\<rparr> []
     = Some (- 5, entry_writes 7 active_entries
                  @ [SetSysclk \<lparr>dev = 1\<rparr> 0 11289600 SND_SOC_CLOCK_OUT,
                     DevErr 1 (''Cannot set cpu MCLK'' @ [CHR 0x0A])])"
proof -
  have start: "stream_start drv_ok \<lparr>private_data = link_with_codec\<rparr> \<lparr>rate = 44100\<rparr> []
     = Some (0, entry_writes 7 active_entries
                @ [SetSysclk \<lparr>dev = 1\<rparr> 0 11289600 SND_SOC_CLOCK_OUT,
                   SetSysclk \<lparr>dev = 2\<rparr> 0 11289600 SND_SOC_CLOCK_OUT])"
    by (simp add: stream_start_result hw_params_result codec_present_def link_with_codec_def
        set_mclk_cases cpu_clk_call_def codec_clk_call_def drv_ok_def)
  have first: "entry_writes 7 active_entries
               = RegWrite 7 0x00 0x35 # tl (entry_writes 7 active_entries)"
    by (simp add: entry_writes_def active_entries_def)
  have other: "entry_writes 7 active_entries
                @ [SetSysclk \<lparr>dev = 1\<rparr> 0 11289600 SND_SOC_CLOCK_OUT,
                   SetSysclk \<lparr>dev = 2\<rparr> 0 11289600 SND_SOC_CLOCK_OUT]
               \<noteq> [SetSysclk \<lparr>dev = 1\<rparr> 0 11289600 SND_SOC_CLOCK_OUT,
                   SetSysclk \<lparr>dev = 2\<rparr> 0 11289600 SND_SOC_CLOCK_OUT]
                  @ entry_writes 7 active_entries"
    by (subst first) simp
  have ne: "stream_start drv_ok \<lparr>private_data = link_with_codec\<rparr> \<lparr>rate = 44100\<rparr> []
     \<noteq> Some (0, [SetSysclk \<lparr>dev = 1\<rparr> 0 11289600 SND_SOC_CLOCK_OUT,
                  SetSysclk \<lparr>dev = 2\<rparr> 0 11289600 SND_SOC_CLOCK_OUT]
                 @ entry_writes 7 active_entries)"
    unfolding start using other by simp
  have h: "hd (entry_writes 7 active_entries
          @ [SetSysclk \<lparr>dev = 1\<rparr> 0 11289600 SND_SOC_CLOCK_OUT,
             SetSysclk \<lparr>dev = 2\<rparr> 0 11289600 SND_SOC_CLOCK_OUT])
       = RegWrite 7 0x00 0x35"
    by (subst first) simp
  have refused:
    "stream_start drv_cpu_refuses \<lparr>private_data = link_with_codec\<rparr> \<lparr>rate = 44100\<rparr> []
     = Some (- 5, entry_writes 7 active_entries
                  @ [SetSysclk \<lparr>dev = 1\<rparr> 0 11289600 SND_SOC_CLOCK_OUT,
                     DevErr 1 (''Cannot set cpu MCLK'' @ [CHR 0x0A])])"
    by (simp add: stream_start_result hw_params_result codec_present_def link_with_codec_def
        set_mclk_cases cpu_clk_call_def drv_cpu_refuses_def)
  show ?thesis
    by (rule conjI [OF start conjI [OF ne conjI [OF h refused]]])
qed

subsection \<open>A link without a codec component\<close>

text \<open>
  C8, as the code has it. When the codec test fails (there are not three components, or the
  middle one is null): \<^verbatim>\<open>csys_audio_init\<close> is exactly \<^verbatim>\<open>csys_audio_set_mclk\<close>; starting a
  stream returns -22 in an unchanged state when the rate is not 44100 and is otherwise
  exactly \<^verbatim>\<open>csys_audio_set_mclk\<close>; \<^verbatim>\<open>csys_audio_shutdown\<close> returns in an unchanged
  state. \<^verbatim>\<open>csys_audio_set_mclk\<close> adds no register write, and its result is the interface's
  answer when that is not 0 and the codec's answer otherwise, so it is 0 unless a clock
  request is refused.
\<close>

theorem no_codec_no_register_write:
  "\<not> (num_components (private_data substream) = 3
      \<and> components (private_data substream) 1 \<noteq> None) \<Longrightarrow>
   csys_audio_init drv (private_data substream) s
     = Some (csys_audio_set_mclk drv (private_data substream) s)
   \<and> stream_start drv substream params s
     = Some (if rate params \<noteq> 44100 then (- 22, s)
             else csys_audio_set_mclk drv (private_data substream) s)
   \<and> csys_audio_shutdown substream s = Some s
   \<and> filter is_reg_write (snd (csys_audio_set_mclk drv (private_data substream) s))
     = filter is_reg_write s
   \<and> fst (csys_audio_set_mclk drv (private_data substream) s)
     = (if drv s (cpu_dai (private_data substream)) 0 11289600 SND_SOC_CLOCK_OUT \<noteq> 0
        then drv s (cpu_dai (private_data substream)) 0 11289600 SND_SOC_CLOCK_OUT
        else drv (s @ [SetSysclk (cpu_dai (private_data substream)) 0 11289600
                         SND_SOC_CLOCK_OUT])
               (codec_dai (private_data substream)) 0 11289600 SND_SOC_CLOCK_OUT)"
proof (intro conjI)
  assume a: "\<not> (num_components (private_data substream) = 3
      \<and> components (private_data substream) 1 \<noteq> None)"
  then have np: "\<not> codec_present (private_data substream)"
    by (simp add: codec_present_def)
  show "csys_audio_init drv (private_data substream) s
     = Some (csys_audio_set_mclk drv (private_data substream) s)"
    using np by (simp add: init_result prod_eq_iff)
  show "stream_start drv substream params s
     = Some (if rate params \<noteq> 44100 then (- 22, s)
             else csys_audio_set_mclk drv (private_data substream) s)"
    using np by (simp add: stream_start_result hw_params_result)
  show "csys_audio_shutdown substream s = Some s"
    using np by (simp add: shutdown_result)
  show "filter is_reg_write (snd (csys_audio_set_mclk drv (private_data substream) s))
     = filter is_reg_write s"
    by (rule set_mclk_no_reg_write)
  show "fst (csys_audio_set_mclk drv (private_data substream) s)
     = (if drv s (cpu_dai (private_data substream)) 0 11289600 SND_SOC_CLOCK_OUT \<noteq> 0
        then drv s (cpu_dai (private_data substream)) 0 11289600 SND_SOC_CLOCK_OUT
        else drv (s @ [SetSysclk (cpu_dai (private_data substream)) 0 11289600
                         SND_SOC_CLOCK_OUT])
               (codec_dai (private_data substream)) 0 11289600 SND_SOC_CLOCK_OUT)"
    by (simp add: set_mclk_cases cpu_clk_call_def)
qed

theorem no_codec_no_register_write_witness:
  "\<not> (num_components (private_data \<lparr>private_data = link_without_codec\<rparr>) = 3
      \<and> components (private_data \<lparr>private_data = link_without_codec\<rparr>) 1 \<noteq> None)
   \<and> csys_audio_init drv_ok link_without_codec []
     = Some (0, [SetSysclk \<lparr>dev = 1\<rparr> 0 11289600 SND_SOC_CLOCK_OUT,
                 SetSysclk \<lparr>dev = 2\<rparr> 0 11289600 SND_SOC_CLOCK_OUT])
   \<and> stream_start drv_ok \<lparr>private_data = link_without_codec\<rparr> \<lparr>rate = 44100\<rparr> []
     = Some (0, [SetSysclk \<lparr>dev = 1\<rparr> 0 11289600 SND_SOC_CLOCK_OUT,
                 SetSysclk \<lparr>dev = 2\<rparr> 0 11289600 SND_SOC_CLOCK_OUT])
   \<and> csys_audio_shutdown \<lparr>private_data = link_without_codec\<rparr> [] = Some []"
proof -
  have absent: "\<not> (num_components (private_data \<lparr>private_data = link_without_codec\<rparr>) = 3
      \<and> components (private_data \<lparr>private_data = link_without_codec\<rparr>) 1 \<noteq> None)"
    by (simp add: link_without_codec_def)
  have ok: "csys_audio_set_mclk drv_ok link_without_codec [] =
     (0, [SetSysclk \<lparr>dev = 1\<rparr> 0 11289600 SND_SOC_CLOCK_OUT,
          SetSysclk \<lparr>dev = 2\<rparr> 0 11289600 SND_SOC_CLOCK_OUT])"
    by (simp add: set_mclk_cases drv_ok_def link_without_codec_def cpu_clk_call_def
        codec_clk_call_def)
  show ?thesis
    using no_codec_no_register_write [OF absent, of drv_ok "[]" "\<lparr>rate = 44100\<rparr>"] absent ok
    by simp
qed

text \<open>
  The claim C8 as it is written fails for a rate that is not supported: on a link without
  a codec and with DAI drivers that accept every clock, the start with 48000 returns -22
  although no clock request was refused (none was made: the trace is still empty).
\<close>

theorem no_codec_wrong_rate_counterexample:
  "stream_start drv_ok \<lparr>private_data = link_without_codec\<rparr> \<lparr>rate = 48000\<rparr> []
     = Some (- 22, [])
   \<and> drv_ok [] \<lparr>dev = 1\<rparr> 0 11289600 SND_SOC_CLOCK_OUT = 0
   \<and> drv_ok [SetSysclk \<lparr>dev = 1\<rparr> 0 11289600 SND_SOC_CLOCK_OUT] \<lparr>dev = 2\<rparr> 0 11289600
       SND_SOC_CLOCK_OUT = 0"
  by (simp add: stream_start_result hw_params_result codec_present_def link_without_codec_def
      drv_ok_def)

end
